theory Spec2Isabelle
  imports Main
begin

section \<open>vpnctl: a shallow embedding of \<^verbatim>\<open>src/vpnctl.py\<close>\<close>

text \<open>
  The program drives the external tool \<^verbatim>\<open>nmcli\<close> through \<^verbatim>\<open>subprocess.check_output\<close>,
  scrapes a table of servers out of a web page with \<^verbatim>\<open>bs4\<close>, prints it and asks the user
  for a row number.  Everything the program does to the outside is written to a trace of
  events, every exception of the source is an error value, and the external tool, the
  decoder of its output and the page fetcher are parameters of the model.

  Python's \<^verbatim>\<open>str\<close> and \<^verbatim>\<open>bytes\<close> are both modelled as \<open>string\<close>; a character stands
  for a code point (or byte) below 256.
\<close>

subsection \<open>Exceptions, pages, events and the machine\<close>

datatype py_error =
    CalledProcessError int
  | NameError
  | ValueError
  | IndexError
  | AttributeError
  | TypeError
  | KeyError
  | EOFError
  | UnicodeDecodeError
  | OverflowError
  | OSError
  | RequestException

text \<open>A parsed page, as \<^verbatim>\<open>bs4\<close> hands it out: text nodes and tags with their contents.\<close>

datatype node =
    NavigableString string
  | Tag string "node list"

datatype event =
    Run "string list" int
  | Sleep int
  | Print string
  | Input string

text \<open>
  \<open>exec\<close> is the external tool: from the argument vector and the state of the world to
  the return code, the standard output and the new world.  \<open>decode\<close> is
  \<^verbatim>\<open>bytes.decode\<close>, and \<open>fetch\<close> is \<^verbatim>\<open>requests.get\<close> followed by the
  \<^verbatim>\<open>html.parser\<close> of \<^verbatim>\<open>bs4\<close>.  \<open>time_sleep\<close> is what \<^verbatim>\<open>time.sleep\<close> raises on a
  length: \<^verbatim>\<open>ValueError\<close> on a negative one, \<^verbatim>\<open>OverflowError\<close> or \<^verbatim>\<open>OSError\<close> on one that
  the interpreter or the platform cannot wait for, and nothing when it sleeps.
  \<open>int_max_str_digits\<close> is the interpreter's limit on the digits of a decimal literal
  that \<^verbatim>\<open>int\<close> converts (0 switches it off).
\<close>

record 'w env =
  exec :: "string list \<Rightarrow> 'w \<Rightarrow> (int \<times> string) \<times> 'w"
  decode :: "string \<Rightarrow> py_error + string"
  fetch :: "string \<Rightarrow> py_error + node"
  time_sleep :: "int \<Rightarrow> py_error option"
  int_max_str_digits :: nat

record 'w machine =
  world :: 'w
  stdin :: "string list"
  trace :: "event list"

type_synonym ('a, 'w) py = "'w machine \<Rightarrow> (py_error + 'a) \<times> 'w machine"

definition py_return :: "'a \<Rightarrow> ('a, 'w) py" where
  "py_return x s = (Inr x, s)"

definition py_raise :: "py_error \<Rightarrow> ('a, 'w) py" where
  "py_raise e s = (Inl e, s)"

definition py_lift :: "py_error + 'a \<Rightarrow> ('a, 'w) py" where
  "py_lift r s = (r, s)"

definition py_bind :: "('a, 'w) py \<Rightarrow> ('a \<Rightarrow> ('b, 'w) py) \<Rightarrow> ('b, 'w) py" where
  "py_bind m f s = (case m s of (Inl e, s') \<Rightarrow> (Inl e, s') | (Inr x, s') \<Rightarrow> f x s')"

definition emit :: "event \<Rightarrow> (unit, 'w) py" where
  "emit ev s = (Inr (), s\<lparr>trace := trace s @ [ev]\<rparr>)"

text \<open>
  \<^verbatim>\<open>subprocess.check_output(argv)\<close>: runs the tool, and raises
  \<^verbatim>\<open>CalledProcessError\<close> with the return code when that is not zero.
\<close>

definition check_output :: "'w env \<Rightarrow> string list \<Rightarrow> (string, 'w) py" where
  "check_output env argv s =
     (case exec env argv (world s) of
        ((rc, out), w') \<Rightarrow>
          (if rc \<noteq> 0 then Inl (CalledProcessError rc) else Inr out,
           s\<lparr>world := w', trace := trace s @ [Run argv rc]\<rparr>))"

text \<open>\<^verbatim>\<open>time.sleep(d)\<close>: it raises, or the process sleeps for \<open>d\<close> seconds.\<close>

definition sleep :: "'w env \<Rightarrow> int \<Rightarrow> (unit, 'w) py" where
  "sleep env d = (case time_sleep env d of Some e \<Rightarrow> py_raise e | None \<Rightarrow> emit (Sleep d))"

subsection \<open>The class \<^verbatim>\<open>VpnConnection\<close>\<close>

definition DEFAULT_SERVER_LIST_URL :: string where
  "DEFAULT_SERVER_LIST_URL = ''https://privatevpn.com/serverlist''"

definition DEFAULT_CONNECTION_NAME :: string where
  "DEFAULT_CONNECTION_NAME = ''PrivateVPN''"

definition DEFAULT_RESTART_DELAY_SECONDS :: int where
  "DEFAULT_RESTART_DELAY_SECONDS = 1"

record VpnConnection =
  name :: string
  restart_delay_seconds :: int

definition state_query :: "VpnConnection \<Rightarrow> string list" where
  "state_query c = [''nmcli'', ''-g'', ''GENERAL.STATE'', ''con'', ''show'', name c]"

definition up_command :: "VpnConnection \<Rightarrow> string list" where
  "up_command c = [''nmcli'', ''con'', ''up'', name c]"

definition down_command :: "VpnConnection \<Rightarrow> string list" where
  "down_command c = [''nmcli'', ''con'', ''down'', name c]"

definition data_query :: "VpnConnection \<Rightarrow> string list" where
  "data_query c = [''nmcli'', ''-g'', ''vpn.data'', ''con'', ''show'', name c]"

definition mod_command :: "VpnConnection \<Rightarrow> string \<Rightarrow> string \<Rightarrow> string list" where
  "mod_command c key val = [''nmcli'', ''con'', ''mod'', name c, ''+vpn.data'', key @ ''='' @ val]"

definition is_connected :: "'w env \<Rightarrow> VpnConnection \<Rightarrow> (bool, 'w) py" where
  "is_connected env c =
     py_bind (check_output env (state_query c))
       (\<lambda>command_output. py_return (length command_output > 0))"

definition connect :: "'w env \<Rightarrow> VpnConnection \<Rightarrow> bool \<Rightarrow> (unit, 'w) py" where
  "connect env c only_if_disconnected =
     (if \<not> only_if_disconnected
      then py_bind (check_output env (up_command c)) (\<lambda>_. py_return ())
      else py_bind (is_connected env c)
             (\<lambda>connected.
                if \<not> connected
                then py_bind (check_output env (up_command c)) (\<lambda>_. py_return ())
                else py_return ()))"

definition disconnect :: "'w env \<Rightarrow> VpnConnection \<Rightarrow> bool \<Rightarrow> (unit, 'w) py" where
  "disconnect env c only_if_connected =
     (if \<not> only_if_connected
      then py_bind (check_output env (down_command c)) (\<lambda>_. py_return ())
      else py_bind (is_connected env c)
             (\<lambda>connected.
                if connected
                then py_bind (check_output env (down_command c)) (\<lambda>_. py_return ())
                else py_return ()))"

definition restart :: "'w env \<Rightarrow> VpnConnection \<Rightarrow> (unit, 'w) py" where
  "restart env c =
     py_bind (is_connected env c)
       (\<lambda>connected.
          if connected
          then py_bind (disconnect env c False)
                 (\<lambda>_. py_bind (sleep env (restart_delay_seconds c))
                         (\<lambda>_. connect env c False))
          else connect env c False)"

subsection \<open>Strings\<close>

text \<open>The characters below 256 that \<^verbatim>\<open>str.isspace\<close> accepts.\<close>

definition is_space :: "char \<Rightarrow> bool" where
  "is_space c = ((of_char c :: nat) \<in> {9, 10, 11, 12, 13, 28, 29, 30, 31, 32, 133, 160})"

definition str_strip :: "string \<Rightarrow> string" where
  "str_strip s = rev (dropWhile is_space (rev (dropWhile is_space s)))"

text \<open>
  \<^verbatim>\<open>s.split(sep)\<close> for a separator that is not empty: the pieces between the
  occurrences of \<open>sep\<close>, found from the left; \<open>cur\<close> is the piece being read.
\<close>

function str_split_from :: "string \<Rightarrow> string \<Rightarrow> string \<Rightarrow> string list" where
  "str_split_from sep cur [] = [cur]"
| "str_split_from sep cur (c # cs) =
     (if sep \<noteq> [] \<and> take (length sep) (c # cs) = sep
      then cur # str_split_from sep [] (drop (length sep) (c # cs))
      else str_split_from sep (cur @ [c]) cs)"
  by pat_completeness auto
termination
  by (relation "measure (\<lambda>(sep, cur, s). length s)") auto

definition str_split :: "string \<Rightarrow> string \<Rightarrow> string list" where
  "str_split sep s = str_split_from sep [] s"

text \<open>
  \<^verbatim>\<open>dict(pairs)\<close> on a list of lists: every element must have two items, a later key
  overwrites an earlier one.
\<close>

fun dict_from :: "(string \<rightharpoonup> string) \<Rightarrow> string list list \<Rightarrow> py_error + (string \<rightharpoonup> string)" where
  "dict_from d [] = Inr d"
| "dict_from d ([k, v] # rest) = dict_from (d(k \<mapsto> v)) rest"
| "dict_from d (_ # rest) = Inl ValueError"

definition dict :: "string list list \<Rightarrow> py_error + (string \<rightharpoonup> string)" where
  "dict pairs = dict_from Map.empty pairs"

definition subscript :: "(string \<rightharpoonup> string) \<Rightarrow> string \<Rightarrow> py_error + string" where
  "subscript d k = (case d k of None \<Rightarrow> Inl KeyError | Some v \<Rightarrow> Inr v)"

subsection \<open>The data dictionary of the connection\<close>

text \<open>\<^verbatim>\<open>_get_data\<close>: the output has the form \<^verbatim>\<open>key1 = value1, key2 = value2\<close>.\<close>

definition get_data :: "'w env \<Rightarrow> VpnConnection \<Rightarrow> (string \<rightharpoonup> string, 'w) py" where
  "get_data env c =
     py_bind (check_output env (data_query c))
       (\<lambda>command_output.
          py_bind (py_lift (decode env command_output))
            (\<lambda>text. py_lift (dict (map (str_split '' = '') (str_split '', '' (str_strip text))))))"

text \<open>
  The body of \<^verbatim>\<open>get_data_item\<close> is \<^verbatim>\<open>self._get_data()[item_key]\<close>.  The parameter is
  called \<^verbatim>\<open>key\<close>; the name \<^verbatim>\<open>item_key\<close> is bound neither in the function, nor in the
  module, nor among the builtins, so loading it raises \<^verbatim>\<open>NameError\<close>.  The call
  \<^verbatim>\<open>self._get_data()\<close> is evaluated before the subscript expression.
\<close>

definition item_key :: "py_error + string" where
  "item_key = Inl NameError"

definition get_data_item :: "'w env \<Rightarrow> VpnConnection \<Rightarrow> string \<Rightarrow> (string, 'w) py" where
  "get_data_item env c key =
     py_bind (get_data env c)
       (\<lambda>data. py_bind (py_lift item_key) (\<lambda>k. py_lift (subscript data k)))"

definition set_data_item :: "'w env \<Rightarrow> VpnConnection \<Rightarrow> string \<Rightarrow> string \<Rightarrow> (unit, 'w) py" where
  "set_data_item env c key val =
     py_bind (check_output env (mod_command c key val)) (\<lambda>_. py_return ())"

definition get_remote_address :: "'w env \<Rightarrow> VpnConnection \<Rightarrow> (string, 'w) py" where
  "get_remote_address env c = get_data_item env c ''remote''"

definition set_remote_address :: "'w env \<Rightarrow> VpnConnection \<Rightarrow> string \<Rightarrow> (unit, 'w) py" where
  "set_remote_address env c addr = set_data_item env c ''remote'' addr"

subsection \<open>Reading the servers out of the page\<close>

text \<open>The nodes below a node, in document order; \<^verbatim>\<open>find_all\<close> and \<^verbatim>\<open>find\<close> search them.\<close>

fun descendants :: "node \<Rightarrow> node list" where
  "descendants (NavigableString s) = []"
| "descendants (Tag n cs) = concat (map (\<lambda>c. c # descendants c) cs)"

fun is_tag :: "node \<Rightarrow> bool" where
  "is_tag (Tag n cs) = True"
| "is_tag (NavigableString s) = False"

fun is_named :: "string \<Rightarrow> node \<Rightarrow> bool" where
  "is_named m (Tag n cs) = (n = m)"
| "is_named m (NavigableString s) = False"

definition find_all :: "string \<Rightarrow> node \<Rightarrow> node list" where
  "find_all m t = filter (is_named m) (descendants t)"

definition find_tag :: "string \<Rightarrow> node \<Rightarrow> node option" where
  "find_tag m t = (case find_all m t of [] \<Rightarrow> None | x # _ \<Rightarrow> Some x)"

fun children :: "node \<Rightarrow> node list" where
  "children (Tag n cs) = cs"
| "children (NavigableString s) = []"

text \<open>
  The property \<^verbatim>\<open>.string\<close>: the single string below a tag, when each tag on the way
  down has exactly one child; \<^verbatim>\<open>None\<close> otherwise.
\<close>

fun tag_string :: "node \<Rightarrow> string option" where
  "tag_string (NavigableString s) = Some s"
| "tag_string (Tag n [c]) = tag_string c"
| "tag_string (Tag n cs) = None"

text \<open>
  A value stored under \<^verbatim>\<open>"location"\<close>.  On a text node \<^verbatim>\<open>.strip()\<close> is the method of
  \<^verbatim>\<open>str\<close>.  On a tag the attribute \<^verbatim>\<open>strip\<close> is \<^verbatim>\<open>find("strip")\<close>: calling \<^verbatim>\<open>None\<close>
  raises \<^verbatim>\<open>TypeError\<close>, and calling a tag is its \<^verbatim>\<open>find_all()\<close>, the result set of all
  tags below it.
\<close>

datatype pyval = Str string | ResultSet "node list"

definition child_strip :: "node \<Rightarrow> py_error + pyval" where
  "child_strip child =
     (case child of
        NavigableString s \<Rightarrow> Inr (Str (str_strip s))
      | Tag n cs \<Rightarrow>
          (case find_tag ''strip'' child of
             None \<Rightarrow> Inl TypeError
           | Some t \<Rightarrow> Inr (ResultSet (filter is_tag (descendants t)))))"

record server =
  location :: pyval
  address :: string

definition index :: "'a list \<Rightarrow> nat \<Rightarrow> py_error + 'a" where
  "index xs i = (if i < length xs then Inr (xs ! i) else Inl IndexError)"

text \<open>The body of the loop over the rows (lines 176 to 181).\<close>

definition parse_row :: "node \<Rightarrow> py_error + server" where
  "parse_row tr =
     (let tds = find_all ''td'' tr in
      case index tds 0 of Inl e \<Rightarrow> Inl e | Inr td0 \<Rightarrow>
     (case index (children td0) 2 of Inl e \<Rightarrow> Inl e | Inr child \<Rightarrow>
     (case child_strip child of Inl e \<Rightarrow> Inl e | Inr loc \<Rightarrow>
     (case index tds 1 of Inl e \<Rightarrow> Inl e | Inr td1 \<Rightarrow>
     (case tag_string td1 of None \<Rightarrow> Inl AttributeError | Some a \<Rightarrow>
        Inr \<lparr>location = loc, address = str_strip a\<rparr>)))))"

fun servers_loop :: "node list \<Rightarrow> server list \<Rightarrow> py_error + server list" where
  "servers_loop [] servers = Inr servers"
| "servers_loop (tr # trs) servers =
     (case parse_row tr of
        Inl e \<Rightarrow> Inl e
      | Inr server \<Rightarrow> servers_loop trs (servers @ [server]))"

definition servers_of_soup :: "node \<Rightarrow> py_error + server list" where
  "servers_of_soup soup =
     (case find_tag ''table'' soup of
        None \<Rightarrow> Inl AttributeError
      | Some table \<Rightarrow>
          (case find_tag ''tbody'' table of
             None \<Rightarrow> Inl AttributeError
           | Some tbody \<Rightarrow> servers_loop (find_all ''tr'' tbody) []))"

definition get_servers_list :: "'w env \<Rightarrow> string \<Rightarrow> (server list, 'w) py" where
  "get_servers_list env server_list_url =
     py_bind (py_lift (fetch env server_list_url)) (\<lambda>soup. py_lift (servers_of_soup soup))"

subsection \<open>Printing the table\<close>

definition TAB :: string where
  "TAB = [CHR 0x09]"

definition ljust :: "string \<Rightarrow> nat \<Rightarrow> string" where
  "ljust s w = s @ replicate (w - length s) CHR '' ''"

definition digit_char :: "nat \<Rightarrow> char" where
  "digit_char d = char_of (48 + d)"

text \<open>\<^verbatim>\<open>str(n)\<close> for a number that is not negative.\<close>

function str_nat :: "nat \<Rightarrow> string" where
  "str_nat n = (if n < 10 then [digit_char n] else str_nat (n div 10) @ [digit_char (n mod 10)])"
  by pat_completeness auto
termination
  by (relation "measure (\<lambda>n. n)") auto

declare str_nat.simps [simp del]

fun py_len :: "pyval \<Rightarrow> nat" where
  "py_len (Str s) = length s"
| "py_len (ResultSet ns) = length ns"

text \<open>A result set has no method \<^verbatim>\<open>ljust\<close>.\<close>

fun py_ljust :: "pyval \<Rightarrow> nat \<Rightarrow> py_error + string" where
  "py_ljust (Str s) w = Inr (ljust s w)"
| "py_ljust (ResultSet ns) w = Inl AttributeError"

text \<open>\<^verbatim>\<open>max\<close> of a sequence raises \<^verbatim>\<open>ValueError\<close> when the sequence is empty.\<close>

fun py_max :: "nat list \<Rightarrow> py_error + nat" where
  "py_max [] = Inl ValueError"
| "py_max (x # xs) = Inr (fold max xs x)"

fun print_rows :: "nat \<Rightarrow> nat \<Rightarrow> nat \<Rightarrow> server list \<Rightarrow> (unit, 'w) py" where
  "print_rows first_column_width second_column_width i [] = py_return ()"
| "print_rows first_column_width second_column_width i (server # rest) =
     py_bind (py_lift (py_ljust (location server) second_column_width))
       (\<lambda>padded.
          py_bind (emit (Print (ljust (str_nat (i + 1)) first_column_width @ TAB @
                                padded @ TAB @ address server)))
            (\<lambda>_. print_rows first_column_width second_column_width (i + 1) rest))"

definition print_servers_list :: "server list \<Rightarrow> (unit, 'w) py" where
  "print_servers_list servers =
     (let first_column_width = length ''Number'' in
      py_bind (py_lift (py_max (map (\<lambda>server. py_len (location server)) servers)))
        (\<lambda>second_column_width.
           py_bind (emit (Print (ljust ''Number'' first_column_width @ TAB @
                                 ljust ''Location'' second_column_width @ TAB @
                                 ''Address'')))
             (\<lambda>_. print_rows first_column_width second_column_width 0 servers)))"

subsection \<open>Asking for a server\<close>

definition is_digit :: "char \<Rightarrow> bool" where
  "is_digit c = (48 \<le> (of_char c :: nat) \<and> (of_char c :: nat) \<le> 57)"

definition digit_value :: "char \<Rightarrow> nat" where
  "digit_value c = of_char c - 48"

text \<open>
  The digits of a literal after its first digit: single underscores may stand between
  digits.  The result is the value and the number of digits.
\<close>

fun int_digits :: "nat \<Rightarrow> nat \<Rightarrow> string \<Rightarrow> (nat \<times> nat) option" where
  "int_digits acc k [] = Some (acc, k)"
| "int_digits acc k [c] =
     (if is_digit c then Some (acc * 10 + digit_value c, k + 1) else None)"
| "int_digits acc k (c # d # cs) =
     (if is_digit c then int_digits (acc * 10 + digit_value c) (k + 1) (d # cs)
      else if c = CHR ''_'' \<and> is_digit d
      then int_digits (acc * 10 + digit_value d) (k + 1) cs
      else None)"

text \<open>
  The white space that \<^verbatim>\<open>int\<close> skips around a literal: the six characters of C, and
  above 127 the spaces of Unicode.  The separators U+001C to U+001F, which
  \<^verbatim>\<open>str.strip\<close> drops, are not among them.
\<close>

definition is_int_space :: "char \<Rightarrow> bool" where
  "is_int_space c = ((of_char c :: nat) \<in> {9, 10, 11, 12, 13, 32, 133, 160})"

definition int_strip :: "string \<Rightarrow> string" where
  "int_strip s = rev (dropWhile is_int_space (rev (dropWhile is_int_space s)))"

text \<open>
  \<^verbatim>\<open>int(s)\<close> on a string: white space around the literal is dropped, one sign is allowed,
  anything else raises \<^verbatim>\<open>ValueError\<close>; so does a literal of more than 640 digits that
  exceeds a limit that is switched on.
\<close>

definition py_int :: "nat \<Rightarrow> string \<Rightarrow> py_error + int" where
  "py_int limit s =
     (let t = int_strip s;
          negative = (t \<noteq> [] \<and> hd t = CHR ''-'');
          body = (if t \<noteq> [] \<and> (hd t = CHR ''-'' \<or> hd t = CHR ''+'') then tl t else t)
      in case body of
           [] \<Rightarrow> Inl ValueError
         | d # ds \<Rightarrow>
             if is_digit d
             then (case int_digits (digit_value d) 1 ds of
                     None \<Rightarrow> Inl ValueError
                   | Some (n, k) \<Rightarrow>
                       if 640 < k \<and> 0 < limit \<and> limit < k then Inl ValueError
                       else Inr (if negative then - int n else int n))
             else Inl ValueError)"

definition prompt :: string where
  "prompt = ''Choose server number to connect: ''"

text \<open>
  The loop of \<^verbatim>\<open>get_chosen_server\<close>, as a recursion on the lines that are left on the
  standard input.  \<^verbatim>\<open>input\<close> writes the prompt and raises \<^verbatim>\<open>EOFError\<close> when no line is
  left.  The result is the events of the loop, the lines left, and what the loop
  returns or raises.
\<close>

fun choose_from :: "nat \<Rightarrow> 'a list \<Rightarrow> string list \<Rightarrow> event list \<times> string list \<times> (py_error + 'a)" where
  "choose_from limit servers [] = ([Input prompt], [], Inl EOFError)"
| "choose_from limit servers (line # rest) =
     (let again = (case choose_from limit servers rest of
                     (evs, rest', r) \<Rightarrow>
                       (Input prompt # Print ''Invalid server number'' # evs, rest', r))
      in case py_int limit line of
           Inl e \<Rightarrow> (if e = ValueError then again else ([Input prompt], rest, Inl e))
         | Inr n \<Rightarrow>
             (let server_number = n - 1
              in if \<not> (0 \<le> server_number \<and> server_number < int (length servers))
                 then again
                 else ([Input prompt], rest, Inr (servers ! nat server_number))))"

definition get_chosen_server :: "'w env \<Rightarrow> 'a list \<Rightarrow> ('a, 'w) py" where
  "get_chosen_server env servers s =
     (case choose_from (int_max_str_digits env) servers (stdin s) of
        (evs, rest, r) \<Rightarrow> (r, s\<lparr>stdin := rest, trace := trace s @ evs\<rparr>))"

subsection \<open>The command\<close>

text \<open>The namespace that \<^verbatim>\<open>parse_arguments\<close> builds with \<^verbatim>\<open>argparse\<close>; \<^verbatim>\<open>main\<close> starts from it.\<close>

record arguments =
  arg_connection :: string
  arg_disconnect :: bool
  arg_url :: "string option"
  arg_list :: bool
  arg_verbose :: bool
  arg_server_list_url :: string

definition print_if :: "bool \<Rightarrow> string \<Rightarrow> (unit, 'w) py" where
  "print_if b line = (if b then emit (Print line) else py_return ())"

text \<open>The block under \<^verbatim>\<open>try\<close>, with the \<^verbatim>\<open>return 0\<close> that follows it.\<close>

definition main_try :: "'w env \<Rightarrow> arguments \<Rightarrow> (int, 'w) py" where
  "main_try env args =
     (let connection = \<lparr>name = arg_connection args,
                        restart_delay_seconds = DEFAULT_RESTART_DELAY_SECONDS\<rparr>
      in if arg_disconnect args
         then py_bind (print_if (arg_verbose args)
                         (''Turning off '' @ arg_connection args @ ''...''))
                (\<lambda>_. py_bind (disconnect env connection True) (\<lambda>_. py_return 0))
         else if arg_list args
         then py_bind (print_if (arg_verbose args) ''Fetching servers list...'')
                (\<lambda>_. py_bind (get_servers_list env (arg_server_list_url args))
                        (\<lambda>servers. py_bind (print_servers_list servers) (\<lambda>_. py_return 0)))
         else py_bind
                (case arg_url args of
                   Some u \<Rightarrow> py_return (u, arg_verbose args)
                 | None \<Rightarrow>
                     py_bind (emit (Print ''Fetching servers list...''))
                       (\<lambda>_. py_bind (get_servers_list env (arg_server_list_url args))
                               (\<lambda>servers. py_bind (print_servers_list servers)
                                  (\<lambda>_. py_bind (get_chosen_server env servers)
                                          (\<lambda>server. py_return (address server, True))))))
                (\<lambda>(server_address, verbose).
                   py_bind (print_if verbose
                              (''Connecting '' @ arg_connection args @ '' to '' @
                               server_address @ ''...''))
                     (\<lambda>_. py_bind (set_remote_address env connection server_address)
                             (\<lambda>_. py_bind (restart env connection)
                                     (\<lambda>_. py_bind (print_if verbose ''Connected'')
                                             (\<lambda>_. py_return 0))))))"

text \<open>\<^verbatim>\<open>except subprocess.CalledProcessError as e: return e.returncode\<close>.\<close>

definition main :: "'w env \<Rightarrow> arguments \<Rightarrow> (int, 'w) py" where
  "main env args s =
     (case main_try env args s of
        (Inl (CalledProcessError returncode), s') \<Rightarrow> (Inr returncode, s')
      | (r, s') \<Rightarrow> (r, s'))"

text \<open>
  \<^verbatim>\<open>sys.exit(main())\<close>: the exit status of the process is the low byte of the value;
  an exception that nothing catches ends the interpreter with status 1.
\<close>

definition exit_status :: "py_error + int \<Rightarrow> int" where
  "exit_status r = (case r of Inr n \<Rightarrow> n mod 256 | Inl e \<Rightarrow> 1)"

definition script :: "'w env \<Rightarrow> arguments \<Rightarrow> string list \<Rightarrow> 'w \<Rightarrow> int \<times> event list" where
  "script env args lines w =
     (case main env args \<lparr>world = w, stdin = lines, trace = []\<rparr> of
        (r, s') \<Rightarrow> (exit_status r, trace s'))"

subsection \<open>A manager in memory, a page and a list of servers\<close>

text \<open>
  A stand-in for the external tool, for running the model: one connection with the
  output of its state query and its \<^verbatim>\<open>vpn.data\<close> entries, printed as
  \<^verbatim>\<open>key1 = value1, key2 = value2\<close>.  Exit code 10 is the tool's answer to a
  connection that does not exist or is not active.
\<close>

record nm =
  nm_name :: string
  nm_state :: string
  nm_data :: "(string \<times> string) list"

definition NL :: string where
  "NL = [CHR 0x0A]"

fun serialize :: "(string \<times> string) list \<Rightarrow> string" where
  "serialize [] = []"
| "serialize [(k, v)] = k @ '' = '' @ v"
| "serialize ((k, v) # kv # rest) = k @ '' = '' @ v @ '', '' @ serialize (kv # rest)"

fun store :: "string \<Rightarrow> string \<Rightarrow> (string \<times> string) list \<Rightarrow> (string \<times> string) list" where
  "store k v [] = [(k, v)]"
| "store k v ((k', v') # rest) = (if k' = k then (k, v) # rest else (k', v') # store k v rest)"

definition stub_exec :: "string list \<Rightarrow> nm \<Rightarrow> (int \<times> string) \<times> nm" where
  "stub_exec argv w =
     (if argv = [''nmcli'', ''-g'', ''GENERAL.STATE'', ''con'', ''show'', nm_name w]
      then ((0, nm_state w), w)
      else if argv = [''nmcli'', ''con'', ''up'', nm_name w]
      then ((0, []), w\<lparr>nm_state := ''activated'' @ NL\<rparr>)
      else if argv = [''nmcli'', ''con'', ''down'', nm_name w]
      then (if nm_state w = [] then ((10, []), w) else ((0, []), w\<lparr>nm_state := []\<rparr>))
      else if argv = [''nmcli'', ''-g'', ''vpn.data'', ''con'', ''show'', nm_name w]
      then ((0, serialize (nm_data w) @ NL), w)
      else if length argv = 6 \<and>
              take 5 argv = [''nmcli'', ''con'', ''mod'', nm_name w, ''+vpn.data'']
      then (let kv = argv ! 5;
                k = takeWhile (\<lambda>x. x \<noteq> CHR ''='') kv;
                v = drop (length k + 1) kv
            in ((0, []), w\<lparr>nm_data := store k v (nm_data w)\<rparr>))
      else ((10, []), w))"

text \<open>The tool's output here is ASCII, which \<^verbatim>\<open>bytes.decode\<close> leaves as it is.\<close>

definition stub_decode :: "string \<Rightarrow> py_error + string" where
  "stub_decode b =
     (if list_all (\<lambda>x. (of_char x :: nat) < 128) b then Inr b else Inl UnicodeDecodeError)"

text \<open>The page of the example: a flag and a line break before the name of the country.\<close>

definition example_row :: "string \<Rightarrow> string \<Rightarrow> node" where
  "example_row country host =
     Tag ''tr''
       [Tag ''td'' [Tag ''img'' [], Tag ''br'' [], NavigableString ('' '' @ country @ NL)],
        Tag ''td'' [NavigableString host]]"

definition example_page :: node where
  "example_page =
     Tag ''[document]''
       [Tag ''html''
          [Tag ''body''
             [Tag ''h1'' [NavigableString ''Servers''],
              Tag ''table''
                [Tag ''tbody''
                   [example_row ''France'' ''fr1.example.com'',
                    example_row ''Germany'' ''de1.example.com'']]]]]"

definition stub_fetch :: "string \<Rightarrow> py_error + node" where
  "stub_fetch url = (if url = DEFAULT_SERVER_LIST_URL then Inr example_page else Inl RequestException)"

text \<open>
  A stand-in for \<^verbatim>\<open>time.sleep\<close>, after CPython 3.11 on Linux: a negative length and a
  length beyond the nanosecond clock are refused by the interpreter, the lengths just
  below that by the system call.
\<close>

definition stub_sleep :: "int \<Rightarrow> py_error option" where
  "stub_sleep d =
     (if d < 0 then Some ValueError
      else if 9223372037 \<le> d then Some OverflowError
      else if 9223372035 \<le> d then Some OSError
      else None)"

definition stub_env :: "nm env" where
  "stub_env = \<lparr>exec = stub_exec, decode = stub_decode, fetch = stub_fetch,
               time_sleep = stub_sleep, int_max_str_digits = 4300\<rparr>"

definition stub_machine :: "string \<Rightarrow> (string \<times> string) list \<Rightarrow> string list \<Rightarrow> nm machine" where
  "stub_machine st data lines =
     \<lparr>world = \<lparr>nm_name = DEFAULT_CONNECTION_NAME, nm_state = st, nm_data = data\<rparr>,
      stdin = lines, trace = []\<rparr>"

definition private_vpn :: VpnConnection where
  "private_vpn = \<lparr>name = DEFAULT_CONNECTION_NAME,
                  restart_delay_seconds = DEFAULT_RESTART_DELAY_SECONDS\<rparr>"

definition example_servers :: "server list" where
  "example_servers =
     [\<lparr>location = Str ''France'', address = ''fr1.example.com''\<rparr>,
      \<lparr>location = Str ''Germany'', address = ''de1.example.com''\<rparr>]"

text \<open>A tool whose state query answers and whose \<^verbatim>\<open>down\<close> action fails with exit code 6.\<close>

definition broken_exec :: "string list \<Rightarrow> unit \<Rightarrow> (int \<times> string) \<times> unit" where
  "broken_exec argv w =
     (if argv = [''nmcli'', ''con'', ''down'', DEFAULT_CONNECTION_NAME]
      then ((6, []), w) else ((0, ''activated'' @ NL), w))"

definition broken_env :: "unit env" where
  "broken_env = \<lparr>exec = broken_exec, decode = stub_decode, fetch = stub_fetch,
                 time_sleep = stub_sleep, int_max_str_digits = 4300\<rparr>"

text \<open>A page whose cells hold plain text, and a page whose row has one cell only.\<close>

definition plain_page :: node where
  "plain_page =
     Tag ''[document]''
       [Tag ''table''
          [Tag ''tbody''
             [Tag ''tr''
                [Tag ''td'' [NavigableString ''France''],
                 Tag ''td'' [NavigableString ''fr1.example.com'']]]]]"


definition page_env :: "node \<Rightarrow> nm env" where
  "page_env page = \<lparr>exec = stub_exec, decode = stub_decode, fetch = (\<lambda>url. Inr page),
                    time_sleep = stub_sleep, int_max_str_digits = 4300\<rparr>"

subsection \<open>Notions for the statements\<close>

text \<open>The rows that the loop of \<^verbatim>\<open>get_servers_list\<close> visits: the \<^verbatim>\<open>tr\<close> tags below
  the \<^verbatim>\<open>tbody\<close> of the first table.\<close>

definition body_rows :: "node \<Rightarrow> node list option" where
  "body_rows soup =
     (case find_tag ''table'' soup of
        None \<Rightarrow> None
      | Some table \<Rightarrow>
          (case find_tag ''tbody'' table of
             None \<Rightarrow> None
           | Some tbody \<Rightarrow> Some (find_all ''tr'' tbody)))"

text \<open>The text content of a node: all strings below it, in document order.\<close>

fun get_text :: "node \<Rightarrow> string" where
  "get_text (NavigableString s) = s"
| "get_text (Tag n cs) = concat (map get_text cs)"

text \<open>
  A row of the shape the loop can read: two cells at least, the first with a text node
  as its third child, the second holding a single string.
\<close>

definition shaped_row :: "node \<Rightarrow> bool" where
  "shaped_row tr =
     (let tds = find_all ''td'' tr
      in 2 \<le> length tds \<and> 3 \<le> length (children (tds ! 0)) \<and>
         \<not> is_tag (children (tds ! 0) ! 2) \<and> tag_string (tds ! 1) \<noteq> None)"

definition row_server :: "node \<Rightarrow> server" where
  "row_server tr =
     (let tds = find_all ''td'' tr
      in \<lparr>location = Str (str_strip (get_text (children (tds ! 0) ! 2))),
          address = str_strip (get_text (tds ! 1))\<rparr>)"

text \<open>The return codes other than zero among the events, in order.\<close>

fun failures :: "event list \<Rightarrow> int list" where
  "failures [] = []"
| "failures (Run argv rc # evs) = (if rc \<noteq> 0 then rc # failures evs else failures evs)"
| "failures (Sleep d # evs) = failures evs"
| "failures (Print l # evs) = failures evs"
| "failures (Input p # evs) = failures evs"

text \<open>
  A computation keeps track of the tool: it only adds events, and a run of the tool
  with a return code other than zero is the last one, raised as
  \<^verbatim>\<open>CalledProcessError\<close> with that code.
\<close>

definition tracked :: "event list \<Rightarrow> py_error + 'a \<Rightarrow> bool" where
  "tracked evs r =
     (failures evs = [] \<or> (\<exists>n. r = Inl (CalledProcessError n) \<and> failures evs = [n]))"

definition tracks :: "('a, 'w) py \<Rightarrow> bool" where
  "tracks m =
     (\<forall>s. \<exists>evs. trace (snd (m s)) = trace s @ evs \<and> tracked evs (fst (m s)) \<and>
            (\<not> isl (fst (m s)) \<longrightarrow> failures evs = []))"

section \<open>Properties\<close>

lemmas py_defs = py_return_def py_raise_def py_lift_def py_bind_def emit_def check_output_def

lemmas stub_defs = stub_env_def stub_exec_def stub_machine_def private_vpn_def state_query_def
  DEFAULT_CONNECTION_NAME_def NL_def up_command_def down_command_def data_query_def
  mod_command_def DEFAULT_RESTART_DELAY_SECONDS_def stub_decode_def stub_fetch_def
  DEFAULT_SERVER_LIST_URL_def broken_exec_def broken_env_def page_env_def stub_sleep_def

subsection \<open>The state of the connection\<close>

text \<open>
  C3: when the state query of the tool succeeds with output \<open>out\<close>, \<^verbatim>\<open>is_connected\<close>
  returns whether \<open>out\<close> is not empty, having run the query once and nothing else.
\<close>

theorem is_connected_nonempty_state:
  "exec env (state_query c) (world s) = ((0, out), w') \<Longrightarrow>
   is_connected env c s =
     (Inr (out \<noteq> []), s\<lparr>world := w', trace := trace s @ [Run (state_query c) 0]\<rparr>)"
  by (simp add: is_connected_def py_defs)

theorem is_connected_nonempty_state_witness:
  "fst (is_connected stub_env private_vpn (stub_machine (''activated'' @ NL) [] [])) = Inr True \<and>
   fst (is_connected stub_env private_vpn (stub_machine [] [] [])) = Inr False"
  using is_connected_nonempty_state [of stub_env private_vpn
      "stub_machine (''activated'' @ NL) [] []" "''activated'' @ NL"
      "world (stub_machine (''activated'' @ NL) [] [])"]
    is_connected_nonempty_state [of stub_env private_vpn "stub_machine [] [] []"
      "[]" "world (stub_machine [] [] [])"]
  by (simp add: stub_defs)

subsection \<open>Restarting\<close>

text \<open>
  C2, as the code has it.  Let the state query succeed with output \<open>out\<close>.  If \<open>out\<close> is
  not empty, the \<^verbatim>\<open>down\<close> action exits with zero and \<^verbatim>\<open>time.sleep\<close> accepts the
  configured delay, the events of \<^verbatim>\<open>restart\<close> are the query, \<^verbatim>\<open>down\<close>, the sleep of the
  configured delay and \<^verbatim>\<open>up\<close>, in this order.  If \<open>out\<close> is not empty and \<^verbatim>\<open>down\<close> exits
  with a code other than zero, \<^verbatim>\<open>restart\<close> raises that code after \<^verbatim>\<open>down\<close>, with neither
  sleep nor \<^verbatim>\<open>up\<close>.  If \<^verbatim>\<open>down\<close> exits with zero and \<^verbatim>\<open>time.sleep\<close> raises, \<^verbatim>\<open>restart\<close>
  raises that error after \<^verbatim>\<open>down\<close>, with no \<^verbatim>\<open>up\<close>.  If \<open>out\<close> is empty, the events are
  the query and \<^verbatim>\<open>up\<close>.
\<close>

theorem restart_actions:
  assumes "exec env (state_query c) (world s) = ((0, out), w1)"
  shows "(out \<noteq> [] \<and> exec env (down_command c) w1 = ((0, out'), w2) \<and>
          time_sleep env (restart_delay_seconds c) = None \<longrightarrow>
          trace (snd (restart env c s)) =
            trace s @ [Run (state_query c) 0, Run (down_command c) 0,
                       Sleep (restart_delay_seconds c),
                       Run (up_command c) (fst (fst (exec env (up_command c) w2)))]) \<and>
         (out \<noteq> [] \<and> exec env (down_command c) w1 = ((rc, out'), w2) \<and> rc \<noteq> 0 \<longrightarrow>
          restart env c s =
            (Inl (CalledProcessError rc),
             s\<lparr>world := w2,
               trace := trace s @ [Run (state_query c) 0, Run (down_command c) rc]\<rparr>)) \<and>
         (out \<noteq> [] \<and> exec env (down_command c) w1 = ((0, out'), w2) \<and>
          time_sleep env (restart_delay_seconds c) = Some e \<longrightarrow>
          restart env c s =
            (Inl e,
             s\<lparr>world := w2,
               trace := trace s @ [Run (state_query c) 0, Run (down_command c) 0]\<rparr>)) \<and>
         (out = [] \<longrightarrow>
          trace (snd (restart env c s)) =
            trace s @ [Run (state_query c) 0,
                       Run (up_command c) (fst (fst (exec env (up_command c) w1)))])"
  using assms
  by (auto simp add: restart_def is_connected_def connect_def disconnect_def sleep_def py_defs
      split: prod.splits sum.splits)

theorem restart_actions_witness:
  "time_sleep stub_env (restart_delay_seconds private_vpn) = None \<and>
   trace (snd (restart stub_env private_vpn (stub_machine (''activated'' @ NL) [] []))) =
     [Run (state_query private_vpn) 0, Run (down_command private_vpn) 0, Sleep 1,
      Run (up_command private_vpn) 0] \<and>
   trace (snd (restart stub_env private_vpn (stub_machine [] [] []))) =
     [Run (state_query private_vpn) 0, Run (up_command private_vpn) 0]"
  using restart_actions [of stub_env private_vpn "stub_machine (''activated'' @ NL) [] []"
      "''activated'' @ NL" "world (stub_machine (''activated'' @ NL) [] [])" "[]"
      "\<lparr>nm_name = DEFAULT_CONNECTION_NAME, nm_state = [], nm_data = []\<rparr>" 0]
    restart_actions [of stub_env private_vpn "stub_machine [] [] []"
      "[]" "world (stub_machine [] [] [])"]
  by (simp add: stub_defs)

text \<open>
  The claim C2 as it is written fails where the tool reports a state and then refuses to
  bring the connection down: \<^verbatim>\<open>restart\<close> stops after the \<^verbatim>\<open>down\<close> action.  It also fails
  where the configured delay is one that \<^verbatim>\<open>time.sleep\<close> refuses, a negative one or one
  of ten thousand million seconds: \<^verbatim>\<open>restart\<close> brings the connection down and raises,
  and the connection stays down.
\<close>

theorem restart_failed_disconnect:
  "fst (is_connected broken_env private_vpn \<lparr>world = (), stdin = [], trace = []\<rparr>) = Inr True \<and>
   restart broken_env private_vpn \<lparr>world = (), stdin = [], trace = []\<rparr> =
     (Inl (CalledProcessError 6),
      \<lparr>world = (), stdin = [],
       trace = [Run (state_query private_vpn) 0, Run (down_command private_vpn) 6]\<rparr>) \<and>
   fst (is_connected stub_env private_vpn (stub_machine (''activated'' @ NL) [] [])) = Inr True \<and>
   fst (restart stub_env (private_vpn\<lparr>restart_delay_seconds := - 1\<rparr>)
          (stub_machine (''activated'' @ NL) [] [])) = Inl ValueError \<and>
   trace (snd (restart stub_env (private_vpn\<lparr>restart_delay_seconds := - 1\<rparr>)
                 (stub_machine (''activated'' @ NL) [] []))) =
     [Run (state_query private_vpn) 0, Run (down_command private_vpn) 0] \<and>
   fst (restart stub_env (private_vpn\<lparr>restart_delay_seconds := 10000000000\<rparr>)
          (stub_machine (''activated'' @ NL) [] [])) = Inl OverflowError \<and>
   trace (snd (restart stub_env (private_vpn\<lparr>restart_delay_seconds := 10000000000\<rparr>)
                 (stub_machine (''activated'' @ NL) [] []))) =
     [Run (state_query private_vpn) 0, Run (down_command private_vpn) 0]"
  by (simp add: restart_def is_connected_def disconnect_def sleep_def py_defs stub_defs)

subsection \<open>The table\<close>

lemma str_nat_1: "str_nat (Suc 0) = ''1''"
  by code_simp

lemma str_nat_2: "str_nat (Suc (Suc 0)) = ''2''"
  by code_simp

text \<open>
  C5: on the two servers of the example \<^verbatim>\<open>print_servers_list\<close> prints a header and two
  rows.  The width of the second column is 7, the length of \<^verbatim>\<open>Germany\<close>, and each row,
  the header too, holds its label padded to that width by \<^verbatim>\<open>ljust\<close>, which never cuts:
  \<^verbatim>\<open>Location\<close> stays as it is, \<^verbatim>\<open>France\<close> gets one blank.
\<close>

theorem print_servers_list_example:
  "print_servers_list example_servers s =
     (Inr (),
      s\<lparr>trace := trace s @
         [Print (ljust ''Number'' 6 @ TAB @ ljust ''Location'' 7 @ TAB @ ''Address''),
          Print (ljust ''1'' 6 @ TAB @ ljust ''France'' 7 @ TAB @ ''fr1.example.com''),
          Print (ljust ''2'' 6 @ TAB @ ljust ''Germany'' 7 @ TAB @ ''de1.example.com'')]\<rparr>) \<and>
   py_max (map (\<lambda>server. py_len (location server)) example_servers) = Inr 7 \<and>
   length ''Germany'' = 7 \<and>
   ljust ''Location'' 7 = ''Location'' \<and>
   ljust ''France'' 7 = ''France '' \<and>
   ljust ''Germany'' 7 = ''Germany'' \<and>
   ljust ''1'' 6 = ''1     ''"
  by (simp add: print_servers_list_def example_servers_def py_defs str_nat_1 str_nat_2 ljust_def
      eval_nat_numeral)

text \<open>
  C6: on the empty list \<^verbatim>\<open>print_servers_list\<close> raises \<^verbatim>\<open>ValueError\<close>, the failure of
  \<^verbatim>\<open>max\<close> on an empty sequence, before it prints anything.
\<close>

theorem print_servers_list_empty:
  "print_servers_list [] s = (Inl ValueError, s)"
  by (simp add: print_servers_list_def py_defs)

subsection \<open>Choosing a server\<close>

lemma py_int_error: "py_int limit line = Inl e \<Longrightarrow> e = ValueError"
  by (auto simp add: py_int_def Let_def split: list.splits if_splits option.splits)

lemma py_int_abc: "py_int k ''abc'' = Inl ValueError"
  by (simp add: py_int_def int_strip_def is_int_space_def is_digit_def)

lemma py_int_0: "py_int k ''0'' = Inr 0"
  by (simp add: py_int_def int_strip_def is_int_space_def is_digit_def digit_value_def)

lemma py_int_5: "py_int k ''5'' = Inr 5"
  by (simp add: py_int_def int_strip_def is_int_space_def is_digit_def digit_value_def)

lemma py_int_2: "py_int k ''2'' = Inr 2"
  by (simp add: py_int_def int_strip_def is_int_space_def is_digit_def digit_value_def)

text \<open>
  C7: with two servers and the lines \<^verbatim>\<open>abc\<close>, \<^verbatim>\<open>0\<close>, \<^verbatim>\<open>5\<close>, \<^verbatim>\<open>2\<close> on the input,
  \<^verbatim>\<open>get_chosen_server\<close> prompts, answers each of the first three lines with the message
  and a new prompt, and returns the second server.  In general a line that \<^verbatim>\<open>int\<close> does
  not convert, or whose number less one is outside the indices of the list, costs one
  message and one new prompt, and the loop goes on with the lines that follow: it does
  not raise.
\<close>

theorem get_chosen_server_reprompts:
  "get_chosen_server env [a, b]
     \<lparr>world = w, stdin = [''abc'', ''0'', ''5'', ''2''], trace = []\<rparr> =
     (Inr b,
      \<lparr>world = w, stdin = [],
       trace = [Input prompt, Print ''Invalid server number'',
                Input prompt, Print ''Invalid server number'',
                Input prompt, Print ''Invalid server number'',
                Input prompt]\<rparr>) \<and>
   (isl (py_int (int_max_str_digits env) line) \<or>
    (\<exists>n. py_int (int_max_str_digits env) line = Inr n \<and>
         (n - 1 < 0 \<or> int (length servers) \<le> n - 1)) \<longrightarrow>
    get_chosen_server env servers (s\<lparr>stdin := line # rest\<rparr>) =
      get_chosen_server env servers
        (s\<lparr>stdin := rest,
          trace := trace s @ [Input prompt, Print ''Invalid server number'']\<rparr>))"
proof
  show "get_chosen_server env [a, b]
     \<lparr>world = w, stdin = [''abc'', ''0'', ''5'', ''2''], trace = []\<rparr> =
     (Inr b,
      \<lparr>world = w, stdin = [],
       trace = [Input prompt, Print ''Invalid server number'',
                Input prompt, Print ''Invalid server number'',
                Input prompt, Print ''Invalid server number'',
                Input prompt]\<rparr>)"
    by (simp add: get_chosen_server_def py_int_abc py_int_0 py_int_5 py_int_2)
next
  show "isl (py_int (int_max_str_digits env) line) \<or>
    (\<exists>n. py_int (int_max_str_digits env) line = Inr n \<and>
         (n - 1 < 0 \<or> int (length servers) \<le> n - 1)) \<longrightarrow>
    get_chosen_server env servers (s\<lparr>stdin := line # rest\<rparr>) =
      get_chosen_server env servers
        (s\<lparr>stdin := rest,
          trace := trace s @ [Input prompt, Print ''Invalid server number'']\<rparr>)"
    by (auto simp add: get_chosen_server_def Let_def isl_def dest: py_int_error
        split: prod.splits sum.splits)
qed

theorem get_chosen_server_reprompts_witness:
  "isl (py_int 4300 [CHR 0x1C, CHR ''2'']) \<and>
   get_chosen_server stub_env example_servers
     (stub_machine [] [] [[CHR 0x1C, CHR ''2''], ''1'']) =
     (Inr (example_servers ! 0),
      (stub_machine [] [] [])
        \<lparr>trace := [Input prompt, Print ''Invalid server number'', Input prompt]\<rparr>)"
proof -
  have one: "py_int k ''1'' = Inr 1" for k
    by (simp add: py_int_def int_strip_def is_int_space_def is_digit_def digit_value_def)
  have sep: "py_int k [CHR 0x1C, CHR ''2''] = Inl ValueError" for k
    by (simp add: py_int_def int_strip_def is_int_space_def is_digit_def)
  have "isl (py_int (int_max_str_digits stub_env) [CHR 0x1C, CHR ''2''])"
    by (simp add: sep)
  with get_chosen_server_reprompts [where env = stub_env and line = "[CHR 0x1C, CHR ''2'']"
      and servers = example_servers and s = "stub_machine [] [] []" and rest = "[''1'']",
      THEN conjunct2]
  have "get_chosen_server stub_env example_servers
          (stub_machine [] [] [[CHR 0x1C, CHR ''2''], ''1'']) =
      get_chosen_server stub_env example_servers
        ((stub_machine [] [] [])
           \<lparr>stdin := [''1''], trace := [Input prompt, Print ''Invalid server number'']\<rparr>)"
    by (simp add: stub_machine_def)
  then show ?thesis
    by (simp add: get_chosen_server_def one sep example_servers_def stub_machine_def)
qed

subsection \<open>The remote address\<close>

lemma split_empty: "str_split sep [] = [[]]"
  by (simp add: str_split_def)

lemma split_entries: "str_split '', '' ''remote = 1.2.3.4'' = [''remote = 1.2.3.4'']"
  by (simp add: str_split_def)

lemma split_entry: "str_split '' = '' ''remote = 1.2.3.4'' = [''remote'', ''1.2.3.4'']"
  by (simp add: str_split_def)

text \<open>
  C1 fails on the code.  With the manager in memory, \<^verbatim>\<open>set_remote_address\<close> stores the
  address \<^verbatim>\<open>1.2.3.4\<close> under \<^verbatim>\<open>remote\<close>, and \<^verbatim>\<open>_get_data\<close> reads it back from the tool's
  output; \<^verbatim>\<open>get_remote_address\<close> still raises \<^verbatim>\<open>NameError\<close> and returns no address.
\<close>

theorem remote_address_round_trip_fails:
  "fst (set_remote_address stub_env private_vpn ''1.2.3.4'' (stub_machine [] [] [])) = Inr () \<and>
   nm_data (world (snd (set_remote_address stub_env private_vpn ''1.2.3.4''
                          (stub_machine [] [] [])))) = [(''remote'', ''1.2.3.4'')] \<and>
   (case fst (get_data stub_env private_vpn
                (snd (set_remote_address stub_env private_vpn ''1.2.3.4''
                        (stub_machine [] [] [])))) of
      Inl e \<Rightarrow> False
    | Inr data \<Rightarrow> data ''remote'' = Some ''1.2.3.4'') \<and>
   fst (get_remote_address stub_env private_vpn
          (snd (set_remote_address stub_env private_vpn ''1.2.3.4''
                  (stub_machine [] [] [])))) = Inl NameError"
  by (simp add: get_remote_address_def set_remote_address_def set_data_item_def
      get_data_item_def get_data_def item_key_def py_defs stub_defs str_strip_def is_space_def
      split_entries split_entry dict_def)

text \<open>
  C10, as the code has it: \<^verbatim>\<open>get_data_item\<close>, and with it \<^verbatim>\<open>get_remote_address\<close>, never
  returns a value, whatever the key and the state of the tool.  When \<^verbatim>\<open>_get_data\<close>
  returns a dictionary the error is \<^verbatim>\<open>NameError\<close>; when \<^verbatim>\<open>_get_data\<close> raises, that
  error comes first.
\<close>

theorem get_data_item_never_returns:
  "fst (get_data_item env c key s) =
     (case fst (get_data env c s) of Inl e \<Rightarrow> Inl e | Inr data \<Rightarrow> Inl NameError) \<and>
   isl (fst (get_data_item env c key s)) \<and>
   snd (get_data_item env c key s) = snd (get_data env c s) \<and>
   get_remote_address env c s = get_data_item env c ''remote'' s"
  by (simp add: get_data_item_def get_remote_address_def item_key_def py_defs
      split: prod.splits sum.splits)

text \<open>
  The claim C10 as it is written fails for a connection without \<^verbatim>\<open>vpn.data\<close> entries:
  the tool prints an empty line, \<^verbatim>\<open>dict\<close> gets one list of one item and raises
  \<^verbatim>\<open>ValueError\<close> before \<^verbatim>\<open>item_key\<close> is looked up.  For a connection that the tool
  does not know, the error is the \<^verbatim>\<open>CalledProcessError\<close> of the query.
\<close>

theorem get_data_item_empty_data:
  "fst (exec stub_env (data_query private_vpn) (world (stub_machine [] [] []))) = (0, NL) \<and>
   fst (get_data_item stub_env private_vpn ''remote'' (stub_machine [] [] [])) = Inl ValueError \<and>
   fst (get_remote_address stub_env private_vpn (stub_machine [] [] [])) = Inl ValueError \<and>
   fst (get_remote_address stub_env \<lparr>name = ''Other'', restart_delay_seconds = 1\<rparr>
          (stub_machine [] [] [])) = Inl (CalledProcessError 10)"
  by (simp add: get_remote_address_def get_data_item_def get_data_def py_defs stub_defs
      str_strip_def is_space_def split_empty dict_def)

subsection \<open>The servers of a page\<close>

lemma tag_string_get_text: "tag_string t = Some a \<Longrightarrow> get_text t = a"
  by (induction t rule: tag_string.induct) auto

lemma parse_row_shaped: "shaped_row tr \<Longrightarrow> parse_row tr = Inr (row_server tr)"
proof -
  assume sh: "shaped_row tr"
  define tds where "tds = find_all ''td'' tr"
  from sh have len: "2 \<le> length tds" and ch: "3 \<le> length (children (tds ! 0))"
    and nt: "\<not> is_tag (children (tds ! 0) ! 2)" and ts: "tag_string (tds ! 1) \<noteq> None"
    by (simp_all add: shaped_row_def tds_def Let_def)
  from nt obtain t3 where t3: "children (tds ! 0) ! 2 = NavigableString t3"
    by (cases "children (tds ! 0) ! 2") auto
  from ts obtain a where a: "tag_string (tds ! 1) = Some a"
    by auto
  have "get_text (tds ! 1) = a"
    using a by (rule tag_string_get_text)
  with len ch t3 a show ?thesis
    by (auto simp add: parse_row_def row_server_def index_def child_strip_def tds_def [symmetric])
qed

lemma servers_loop_shaped:
  "list_all shaped_row trs \<Longrightarrow> servers_loop trs acc = Inr (acc @ map row_server trs)"
  by (induction trs arbitrary: acc) (simp_all add: parse_row_shaped)

text \<open>
  C4, as the code has it.  Let the page have a table, its first table a \<^verbatim>\<open>tbody\<close>, and
  let every \<^verbatim>\<open>tr\<close> below it have two cells at least, the first with three children at
  least of which the third is a text node, the second holding a single string.  Then
  \<^verbatim>\<open>get_servers_list\<close> returns one record for each row, in the order of the rows: the
  location is the stripped third child of the first cell and the address is the
  stripped text content of the second cell.  Nothing is left out, reordered or checked.
  On the page of the example the result is France with \<^verbatim>\<open>fr1.example.com\<close>, then Germany
  with \<^verbatim>\<open>de1.example.com\<close>.
\<close>

theorem get_servers_list_rows:
  "(fetch env url = Inr soup \<and> body_rows soup = Some trs \<and> list_all shaped_row trs \<longrightarrow>
    get_servers_list env url s = (Inr (map row_server trs), s)) \<and>
   get_servers_list (page_env example_page) url s = (Inr example_servers, s)"
proof
  show "fetch env url = Inr soup \<and> body_rows soup = Some trs \<and> list_all shaped_row trs \<longrightarrow>
    get_servers_list env url s = (Inr (map row_server trs), s)"
    by (auto simp add: get_servers_list_def servers_of_soup_def body_rows_def py_defs
        servers_loop_shaped split: option.splits)
next
  show "get_servers_list (page_env example_page) url s = (Inr example_servers, s)"
    by (simp add: get_servers_list_def servers_of_soup_def py_defs page_env_def example_page_def
        example_row_def find_tag_def find_all_def parse_row_def index_def child_strip_def
        str_strip_def is_space_def NL_def example_servers_def)
qed

theorem get_servers_list_rows_witness:
  "fetch (page_env example_page) DEFAULT_SERVER_LIST_URL = Inr example_page \<and>
   body_rows example_page =
     Some [example_row ''France'' ''fr1.example.com'',
           example_row ''Germany'' ''de1.example.com''] \<and>
   list_all shaped_row [example_row ''France'' ''fr1.example.com'',
                        example_row ''Germany'' ''de1.example.com''] \<and>
   get_servers_list (page_env example_page) DEFAULT_SERVER_LIST_URL (stub_machine [] [] []) =
     (Inr (map row_server [example_row ''France'' ''fr1.example.com'',
                           example_row ''Germany'' ''de1.example.com'']),
      stub_machine [] [] [])"
proof -
  let ?rows = "[example_row ''France'' ''fr1.example.com'',
                example_row ''Germany'' ''de1.example.com'']"
  have f: "fetch (page_env example_page) DEFAULT_SERVER_LIST_URL = Inr example_page"
    by (simp add: page_env_def)
  have b: "body_rows example_page = Some ?rows"
    by (simp add: body_rows_def example_page_def example_row_def find_tag_def find_all_def)
  have sh: "list_all shaped_row ?rows"
    by (simp add: shaped_row_def example_row_def find_all_def)
  from f b sh get_servers_list_rows [where env = "page_env example_page"
      and url = DEFAULT_SERVER_LIST_URL and soup = example_page and trs = ?rows
      and s = "stub_machine [] [] []", THEN conjunct1]
  show ?thesis by simp
qed

text \<open>
  The claim C4 as it is written fails on a page whose row has two cells of plain text:
  the first cell has one child, and taking its third raises \<^verbatim>\<open>IndexError\<close>.
\<close>

theorem get_servers_list_plain_cells:
  "body_rows plain_page =
     Some [Tag ''tr'' [Tag ''td'' [NavigableString ''France''],
                       Tag ''td'' [NavigableString ''fr1.example.com'']]] \<and>
   length (find_all ''td'' (Tag ''tr'' [Tag ''td'' [NavigableString ''France''],
                       Tag ''td'' [NavigableString ''fr1.example.com'']])) = 2 \<and>
   get_servers_list (page_env plain_page) DEFAULT_SERVER_LIST_URL (stub_machine [] [] []) =
     (Inl IndexError, stub_machine [] [] [])"
  by (simp add: get_servers_list_def servers_of_soup_def py_defs page_env_def plain_page_def
        body_rows_def find_tag_def find_all_def parse_row_def index_def)







subsection \<open>The exit status\<close>

lemma failures_append: "failures (xs @ ys) = failures xs @ failures ys"
  by (induction xs rule: failures.induct) auto

lemma failures_mem: "Run argv n \<in> set evs \<Longrightarrow> n \<noteq> 0 \<Longrightarrow> n \<in> set (failures evs)"
  by (induction evs rule: failures.induct) auto

lemma tracks_return: "tracks (py_return x)"
  by (simp add: tracks_def tracked_def py_return_def)

lemma tracks_lift: "tracks (py_lift r)"
  by (simp add: tracks_def tracked_def py_lift_def)

lemma tracks_raise: "tracks (py_raise e)"
  by (simp add: tracks_def tracked_def py_raise_def)

lemma tracks_print: "tracks (emit (Print l))"
  by (simp add: tracks_def tracked_def emit_def)

lemma tracks_sleep: "tracks (sleep env d)"
  by (simp add: tracks_def tracked_def sleep_def emit_def py_raise_def split: option.splits)

lemma tracks_check_output: "tracks (check_output env argv)"
  by (simp add: tracks_def tracked_def check_output_def split: prod.splits)

lemma tracks_bind:
  assumes m: "tracks m" and f: "\<And>x. tracks (f x)"
  shows "tracks (py_bind m f)"
  unfolding tracks_def
proof
  fix s
  from m obtain evs1 where e1: "trace (snd (m s)) = trace s @ evs1"
    and t1: "tracked evs1 (fst (m s))" and q1: "\<not> isl (fst (m s)) \<longrightarrow> failures evs1 = []"
    unfolding tracks_def by blast
  show "\<exists>evs. trace (snd (py_bind m f s)) = trace s @ evs \<and>
          tracked evs (fst (py_bind m f s)) \<and>
          (\<not> isl (fst (py_bind m f s)) \<longrightarrow> failures evs = [])"
  proof (cases "fst (m s)")
    case (Inl e)
    then have "py_bind m f s = (Inl e, snd (m s))"
      by (cases "m s") (simp add: py_bind_def)
    with e1 t1 Inl show ?thesis by (auto simp add: tracked_def)
  next
    case (Inr x)
    then have b: "py_bind m f s = f x (snd (m s))"
      by (cases "m s") (simp add: py_bind_def)
    from f [of x] obtain evs2 where e2: "trace (snd (f x (snd (m s)))) = trace (snd (m s)) @ evs2"
      and t2: "tracked evs2 (fst (f x (snd (m s))))"
      and q2: "\<not> isl (fst (f x (snd (m s)))) \<longrightarrow> failures evs2 = []"
      unfolding tracks_def by blast
    from q1 Inr have z: "failures evs1 = []" by simp
    have "trace (snd (py_bind m f s)) = trace s @ (evs1 @ evs2)"
      using b e1 e2 by simp
    moreover have "tracked (evs1 @ evs2) (fst (py_bind m f s))"
      using t2 z b by (simp add: tracked_def failures_append)
    moreover have "\<not> isl (fst (py_bind m f s)) \<longrightarrow> failures (evs1 @ evs2) = []"
      using q2 z b by (simp add: failures_append)
    ultimately show ?thesis by blast
  qed
qed

lemmas tracks_intros = tracks_bind tracks_return tracks_lift tracks_raise tracks_print
  tracks_sleep tracks_check_output

lemma tracks_is_connected: "tracks (is_connected env c)"
  unfolding is_connected_def by (intro tracks_intros)

lemma tracks_connect: "tracks (connect env c b)"
  unfolding connect_def by (auto intro!: tracks_intros tracks_is_connected)

lemma tracks_disconnect: "tracks (disconnect env c b)"
  unfolding disconnect_def by (auto intro!: tracks_intros tracks_is_connected)

lemma tracks_restart: "tracks (restart env c)"
  unfolding restart_def
  by (auto intro!: tracks_intros tracks_is_connected tracks_connect tracks_disconnect)

lemma tracks_set_remote_address: "tracks (set_remote_address env c a)"
  unfolding set_remote_address_def set_data_item_def by (intro tracks_intros)

lemma tracks_get_servers_list: "tracks (get_servers_list env url)"
  unfolding get_servers_list_def by (intro tracks_intros)

lemma tracks_print_rows: "tracks (print_rows w1 w2 i servers)"
  by (induction servers arbitrary: i) (auto intro!: tracks_intros)

lemma tracks_print_servers_list: "tracks (print_servers_list servers)"
  unfolding print_servers_list_def Let_def by (intro tracks_intros tracks_print_rows)

lemma tracks_print_if: "tracks (print_if b l)"
  unfolding print_if_def by (auto intro!: tracks_intros)

lemma failures_choose_from: "failures (fst (choose_from limit servers lines)) = []"
  by (induction lines) (auto simp add: Let_def prompt_def split: prod.splits sum.splits)

lemma tracks_get_chosen_server: "tracks (get_chosen_server env servers)"
  unfolding tracks_def
proof
  fix s :: "'a machine"
  obtain evs rest r where c: "choose_from (int_max_str_digits env) servers (stdin s) = (evs, rest, r)"
    by (cases "choose_from (int_max_str_digits env) servers (stdin s)") auto
  with failures_choose_from [of "int_max_str_digits env" servers "stdin s"]
  have "failures evs = []" by simp
  with c show "\<exists>evs. trace (snd (get_chosen_server env servers s)) = trace s @ evs \<and>
          tracked evs (fst (get_chosen_server env servers s)) \<and>
          (\<not> isl (fst (get_chosen_server env servers s)) \<longrightarrow> failures evs = [])"
    by (auto simp add: get_chosen_server_def tracked_def)
qed

lemma tracks_main_try: "tracks (main_try env args)"
  unfolding main_try_def Let_def
  by (auto intro!: tracks_intros tracks_print_if tracks_disconnect tracks_get_servers_list
      tracks_print_servers_list tracks_get_chosen_server tracks_set_remote_address
      tracks_restart split: option.splits)

text \<open>
  C9: in a run of the command, whatever the arguments, the input and the tool, when a
  call of the tool returns a code \<open>n\<close> other than zero, \<^verbatim>\<open>main\<close> returns \<open>n\<close> and the
  process ends with the low byte of \<open>n\<close>, which is \<open>n\<close> itself for an exit code, a number
  from 1 to 255.
\<close>

theorem tool_failure_is_exit_status:
  assumes "Run argv n \<in> set (snd (script env args lines w))" and "n \<noteq> 0"
  shows "fst (main env args \<lparr>world = w, stdin = lines, trace = []\<rparr>) = Inr n \<and>
         fst (script env args lines w) = n mod 256 \<and>
         (0 < n \<and> n < 256 \<longrightarrow> fst (script env args lines w) = n)"
proof -
  let ?s = "\<lparr>world = w, stdin = lines, trace = []\<rparr>"
  from tracks_main_try [of env args] obtain evs
    where e: "trace (snd (main_try env args ?s)) = trace ?s @ evs"
      and t: "tracked evs (fst (main_try env args ?s))"
    unfolding tracks_def by blast
  have tr: "snd (script env args lines w) = trace (snd (main_try env args ?s))"
    by (cases "main_try env args ?s")
      (simp add: script_def main_def split: sum.splits py_error.splits)
  with assms e have "n \<in> set (failures evs)"
    by (simp add: failures_mem)
  with t have r: "fst (main_try env args ?s) = Inl (CalledProcessError n)"
    by (auto simp add: tracked_def)
  then have m: "fst (main env args ?s) = Inr n"
    by (cases "main_try env args ?s") (simp add: main_def)
  then have "fst (script env args lines w) = n mod 256"
    by (cases "main env args ?s") (simp add: script_def exit_status_def)
  with m show ?thesis by simp
qed

theorem tool_failure_is_exit_status_witness:
  "script stub_env
     \<lparr>arg_connection = ''Other'', arg_disconnect = True, arg_url = None, arg_list = False,
      arg_verbose = False, arg_server_list_url = DEFAULT_SERVER_LIST_URL\<rparr> []
     \<lparr>nm_name = DEFAULT_CONNECTION_NAME, nm_state = [], nm_data = []\<rparr> =
     (10, [Run [''nmcli'', ''-g'', ''GENERAL.STATE'', ''con'', ''show'', ''Other''] 10])"
proof -
  let ?args = "\<lparr>arg_connection = ''Other'', arg_disconnect = True, arg_url = None, arg_list = False,
      arg_verbose = False, arg_server_list_url = DEFAULT_SERVER_LIST_URL\<rparr>"
  let ?w = "\<lparr>nm_name = DEFAULT_CONNECTION_NAME, nm_state = [], nm_data = []\<rparr>"
  let ?argv = "[''nmcli'', ''-g'', ''GENERAL.STATE'', ''con'', ''show'', ''Other'']"
  have tr: "snd (script stub_env ?args [] ?w) = [Run ?argv 10]"
    by (simp add: script_def main_def main_try_def disconnect_def is_connected_def print_if_def
        py_defs stub_defs)
  then have "Run ?argv 10 \<in> set (snd (script stub_env ?args [] ?w))"
    by simp
  from tool_failure_is_exit_status [OF this] have "fst (script stub_env ?args [] ?w) = 10"
    by simp
  with tr show ?thesis by (simp add: prod_eq_iff)
qed

end
